theory Spec2Isabelle
  imports Complex_Main "HOL-Library.Sublist"
begin

section \<open>JavaScript values used by the floor-plan components\<close>

text \<open>
  The components are TypeScript/React function components. Their pure parts (the
  memoised lists, the formatting helpers, the render branches) are embedded as HOL
  functions; their \<open>useState\<close> cells are fields of a state record and their event
  handlers are functions on that record.

  A JavaScript \<open>number\<close> is modelled by its mathematical value: \<open>NaN\<close>, the two
  infinities, or a finite rational. Rounding to binary64 (with it, overflow to an
  infinity) and the sign of zero are outside the model; none of the tests below
  (\<open>isNaN\<close>, \<open><\<close>, \<open>>\<close>, \<open>!== 1\<close>, \<open>% 1 !== 0\<close>) and no printed string tells
  \<open>-0\<close> from \<open>0\<close>.
  A value of type \<open>string | null | undefined\<close> is a \<open>string option\<close>; strings are
  lists of ASCII characters.
\<close>

datatype jsnum = NaN | PosInf | NegInf | Fin rat

definition isNaN :: "jsnum \<Rightarrow> bool" where
  "isNaN n = (case n of NaN \<Rightarrow> True | _ \<Rightarrow> False)"

text \<open>The relational operators \<open><\<close> and \<open>>\<close>: any comparison with \<open>NaN\<close> is false.\<close>

fun js_lt :: "jsnum \<Rightarrow> jsnum \<Rightarrow> bool" where
  "js_lt NaN _ = False"
| "js_lt _ NaN = False"
| "js_lt PosInf _ = False"
| "js_lt NegInf NegInf = False"
| "js_lt NegInf _ = True"
| "js_lt (Fin a) PosInf = True"
| "js_lt (Fin a) NegInf = False"
| "js_lt (Fin a) (Fin b) = (a < b)"

definition js_gt :: "jsnum \<Rightarrow> jsnum \<Rightarrow> bool" where
  "js_gt a b = js_lt b a"

text \<open>Strict inequality \<open>!==\<close> on numbers: \<open>NaN\<close> differs from everything, itself included.\<close>

definition js_strict_neq :: "jsnum \<Rightarrow> jsnum \<Rightarrow> bool" where
  "js_strict_neq a b = (if isNaN a \<or> isNaN b then True else a \<noteq> b)"

definition Math_floor :: "jsnum \<Rightarrow> jsnum" where
  "Math_floor n = (case n of Fin r \<Rightarrow> Fin (of_int \<lfloor>r\<rfloor>) | _ \<Rightarrow> n)"

text \<open>
  The remainder operator \<open>%\<close>: the result takes the sign of the dividend, the quotient is
  truncated towards zero.
\<close>

definition trunc :: "rat \<Rightarrow> int" where
  "trunc r = (if r < 0 then \<lceil>r\<rceil> else \<lfloor>r\<rfloor>)"

fun js_rem :: "jsnum \<Rightarrow> jsnum \<Rightarrow> jsnum" where
  "js_rem (Fin n) (Fin d) = (if d = 0 then NaN else Fin (n - d * of_int (trunc (n / d))))"
| "js_rem (Fin n) PosInf = Fin n"
| "js_rem (Fin n) NegInf = Fin n"
| "js_rem _ _ = NaN"

subsection \<open>Digits\<close>

definition isDigit :: "char \<Rightarrow> bool" where
  "isDigit c = (c \<in> set ''0123456789'')"

text \<open>The value of a decimal digit is its position in \<open>0123456789\<close>.\<close>

definition digitVal :: "char \<Rightarrow> nat" where
  "digitVal c = length (takeWhile (\<lambda>d. d \<noteq> c) ''0123456789'')"

definition digitsValue :: "string \<Rightarrow> nat" where
  "digitsValue ds = foldl (\<lambda>acc c. 10 * acc + digitVal c) 0 ds"

definition digitChar :: "nat \<Rightarrow> char" where
  "digitChar d = ''0123456789'' ! (d mod 10)"

fun natToString :: "nat \<Rightarrow> string" where
  "natToString n =
     (if n < 10 then [digitChar n] else natToString (n div 10) @ [digitChar (n mod 10)])"

declare natToString.simps [simp del]

definition intToString :: "int \<Rightarrow> string" where
  "intToString i = (if i < 0 then CHR ''-'' # natToString (nat (- i)) else natToString (nat i))"

text \<open>
  \<open>Number::toString\<close>, as the template literals \<open>`${whole} Bed...`\<close> apply it. The
  components print results of \<open>Math.floor\<close> only, which are integral, \<open>NaN\<close> or
  infinite; the fraction digits of a non-integral number and the exponent notation of
  magnitudes from \<open>10^21\<close> on are not modelled (the integral part is printed in full).
\<close>

definition numberToString :: "jsnum \<Rightarrow> string" where
  "numberToString n =
     (case n of
        NaN \<Rightarrow> ''NaN''
      | PosInf \<Rightarrow> ''Infinity''
      | NegInf \<Rightarrow> ''-Infinity''
      | Fin r \<Rightarrow> intToString (trunc r))"

subsection \<open>\<open>parseInt\<close> and \<open>parseFloat\<close>\<close>

definition isWhiteSpace :: "char \<Rightarrow> bool" where
  "isWhiteSpace c = (c \<in> set [CHR 0x09, CHR 0x0A, CHR 0x0B, CHR 0x0C, CHR 0x0D, CHR 0x20])"

text \<open>An optional sign in front of a numeral: the factor and the rest of the string.\<close>

definition takeSign :: "string \<Rightarrow> int \<times> string" where
  "takeSign s =
     (case s of
        [] \<Rightarrow> (1, [])
      | c # cs \<Rightarrow> if c = CHR ''-'' then (- 1, cs) else if c = CHR ''+'' then (1, cs) else (1, s))"

text \<open>
  \<open>parseInt(s, 10)\<close>: leading white space is skipped, an optional sign is read, then the
  longest run of decimal digits; with no digit the result is \<open>NaN\<close>. Whatever follows
  the digits is ignored.
\<close>

definition parseInt :: "string \<Rightarrow> jsnum" where
  "parseInt s =
     (let (sign, rest) = takeSign (dropWhile isWhiteSpace s);
          ds = takeWhile isDigit rest
      in if ds = [] then NaN else Fin (of_int (sign * int (digitsValue ds))))"

text \<open>
  The exponent part of a decimal literal: \<open>e\<close> or \<open>E\<close>, an optional sign and at least
  one digit. Without a digit there is no exponent part and the exponent is 0.
\<close>

definition exponentPart :: "string \<Rightarrow> int" where
  "exponentPart s =
     (case s of
        [] \<Rightarrow> 0
      | c # cs \<Rightarrow>
          if c = CHR ''e'' \<or> c = CHR ''E'' then
            (let (sign, rest) = takeSign cs; ds = takeWhile isDigit rest
             in if ds = [] then 0 else sign * int (digitsValue ds))
          else 0)"

definition scale10 :: "int \<Rightarrow> int \<Rightarrow> rat" where
  "scale10 m e = (if 0 \<le> e then of_int m * 10 ^ nat e else of_int m / 10 ^ nat (- e))"

text \<open>
  \<open>parseFloat(s)\<close>: leading white space is skipped and the longest prefix that is a
  decimal literal is read: an optional sign, then \<open>Infinity\<close>, or digits with an optional
  fraction and an optional exponent part (the digits before or after the point may be
  missing, not both). With no such prefix the result is \<open>NaN\<close>.
\<close>

definition parseFloat :: "string \<Rightarrow> jsnum" where
  "parseFloat s =
     (let (sign, u) = takeSign (dropWhile isWhiteSpace s) in
      if take 8 u = ''Infinity'' then (if sign < 0 then NegInf else PosInf)
      else
        let ip = takeWhile isDigit u;
            r1 = dropWhile isDigit u;
            hasPoint = (r1 \<noteq> [] \<and> hd r1 = CHR ''.'');
            fp = (if hasPoint then takeWhile isDigit (tl r1) else []);
            r2 = (if hasPoint then dropWhile isDigit (tl r1) else r1)
        in if ip = [] \<and> fp = [] then NaN
           else Fin (scale10 (sign * int (digitsValue (ip @ fp)))
                             (exponentPart r2 - int (length fp))))"

section \<open>Data model\<close>

text \<open>
  The floor-plan record of the listing API and the project record of the static
  configuration, with the fields the components below read. Optional fields are
  \<open>option\<close>s (\<open>None\<close> for \<open>null\<close> and \<open>undefined\<close>). The image link collections
  (\<open>floorPlanPhoto\<close>, \<open>keyPlan\<close>, \<open>renderings\<close>) only choose picture URLs and are left out.
\<close>

record FloorPlanResponse =
  fp_id :: string
  projectId :: "string option"
  name :: "string option"
  bedRooms :: "string option"
  bathRooms :: "string option"
  totalSize :: "string option"
  interiorSize :: "string option"
  exteriorSize :: "string option"

record Project =
  project_projectId :: "string option"
  project_name :: string

record ProjectConfig =
  slug :: string
  projects :: "Project list"

text \<open>\<open>FloorPlanFilters\<close> of \<open>App.tsx\<close>; an empty string or \<open>null\<close> means "not set".\<close>

record SizeRange =
  range_min :: jsnum
  range_max :: jsnum

record FloorPlanFilters =
  projectName :: string
  bedrooms :: string
  bathrooms :: string
  sizeRange :: "SizeRange option"

text \<open>
  What the data-fetching hook \<open>useFloorPlans\<close> hands to a component, as the components
  destructure it: \<open>data\<close> stands for \<open>data?.data\<close> (\<open>None\<close> when either level is
  missing) and \<open>error\<close> for \<open>error?.message\<close>. The hook itself is a parameter here.
\<close>

record FetchResult =
  data :: "FloorPlanResponse list option"
  isLoading :: bool
  error :: "string option"
  isError :: bool

text \<open>Truthiness of an optional string, and \<open>a || d\<close> with a string default.\<close>

definition truthy :: "string option \<Rightarrow> bool" where
  "truthy a = (case a of None \<Rightarrow> False | Some s \<Rightarrow> s \<noteq> [])"

definition or_else :: "string option \<Rightarrow> string \<Rightarrow> string" where
  "or_else a d = (case a of None \<Rightarrow> d | Some s \<Rightarrow> if s \<noteq> [] then s else d)"

text \<open>\<open>Array.prototype.includes\<close> on strings.\<close>

fun array_includes :: "string list \<Rightarrow> string \<Rightarrow> bool" where
  "array_includes [] x = False"
| "array_includes (y # ys) x = (if y = x then True else array_includes ys x)"

section \<open>The \<open>FloorPlans\<close> component\<close>

definition FloorPlans_slugs :: "string list option \<Rightarrow> string list" where
  "FloorPlans_slugs projectSlugs =
     (case projectSlugs of None \<Rightarrow> [''ansoku'', ''solin'', ''willa''] | Some s \<Rightarrow> s)"

text \<open>
  \<open>projectNameMap\<close>: the \<open>forEach\<close> over \<open>config.projects\<close> stores the name of every
  project with a truthy \<open>projectId\<close>; a later project overwrites an earlier one.
\<close>

definition FloorPlans_projectNameMap :: "ProjectConfig \<Rightarrow> (string \<rightharpoonup> string)" where
  "FloorPlans_projectNameMap config =
     foldl (\<lambda>m project.
              if truthy (project_projectId project)
              then m(the (project_projectId project) \<mapsto> project_name project)
              else m)
           Map.empty (projects config)"

definition FloorPlans_getProjectName :: "ProjectConfig \<Rightarrow> string option \<Rightarrow> string option" where
  "FloorPlans_getProjectName config pid =
     (if \<not> truthy pid then None
      else case FloorPlans_projectNameMap config (the pid) of
             None \<Rightarrow> None
           | Some n \<Rightarrow> if n \<noteq> [] then Some n else None)"

text \<open>The callback of \<open>data.data.filter\<close> in \<open>filteredFloorPlans\<close>, test by test.\<close>

definition FloorPlans_matches :: "ProjectConfig \<Rightarrow> FloorPlanFilters \<Rightarrow> FloorPlanResponse \<Rightarrow> bool" where
  "FloorPlans_matches config filters fp =
     (if projectName filters \<noteq> [] \<and>
         FloorPlans_getProjectName config (projectId fp) \<noteq> Some (projectName filters)
      then False
      else if bedrooms filters \<noteq> [] \<and> bedRooms fp \<noteq> Some (bedrooms filters) then False
      else if bathrooms filters \<noteq> [] \<and> bathRooms fp \<noteq> Some (bathrooms filters) then False
      else case sizeRange filters of
             None \<Rightarrow> True
           | Some r \<Rightarrow>
               (let size = parseInt (or_else (totalSize fp) (or_else (interiorSize fp) ''0''))
                in if js_lt size (range_min r) \<or> js_gt size (range_max r) then False else True))"

definition filteredFloorPlans ::
  "ProjectConfig \<Rightarrow> FloorPlanFilters \<Rightarrow> FloorPlanResponse list option \<Rightarrow> FloorPlanResponse list" where
  "filteredFloorPlans config filters d =
     (case d of None \<Rightarrow> [] | Some xs \<Rightarrow> filter (FloorPlans_matches config filters) xs)"

definition favoritedFloorPlans ::
  "FloorPlanResponse list option \<Rightarrow> string list \<Rightarrow> FloorPlanResponse list" where
  "favoritedFloorPlans d favorites =
     (case d of None \<Rightarrow> [] | Some xs \<Rightarrow> filter (\<lambda>fp. array_includes favorites (fp_id fp)) xs)"

definition canCompare :: "FloorPlanResponse list option \<Rightarrow> string list \<Rightarrow> bool" where
  "canCompare d favorites = (2 \<le> length (favoritedFloorPlans d favorites))"

text \<open>The component's own state cells and the two handlers of the Compare button.\<close>

record FloorPlansState =
  selectedFloorPlan :: "FloorPlanResponse option"
  isModalOpen :: bool
  isCompareModalOpen :: bool

definition handleOpenCompare :: "FloorPlansState \<Rightarrow> FloorPlansState" where
  "handleOpenCompare st = st\<lparr>isCompareModalOpen := True\<rparr>"

definition handleCloseCompare :: "FloorPlansState \<Rightarrow> FloorPlansState" where
  "handleCloseCompare st = st\<lparr>isCompareModalOpen := False\<rparr>"

text \<open>
  What \<open>FloorPlans\<close> returns. The three early returns are a single message element; the
  last return is the grid (a "no results" note or one card per filtered plan, with the
  project name it shows), the Compare button when \<open>canCompare\<close>, and the two modals with
  the props handed to them.
\<close>

datatype Grid = NoResults | Cards "(FloorPlanResponse \<times> string option) list"

record DetailModalProps =
  detail_floorPlan :: "FloorPlanResponse option"
  detail_isOpen :: bool

record ComparisonModalProps =
  cmp_isOpen :: bool
  cmp_favoritedFloorPlans :: "FloorPlanResponse list"

record MainView =
  grid :: Grid
  compareButton :: bool
  detailModal :: DetailModalProps
  comparisonModal :: ComparisonModalProps

datatype FloorPlansView =
    LoadingView
  | ErrorView string
  | EmptyView
  | FloorPlansMain MainView

definition FloorPlans_render ::
  "ProjectConfig \<Rightarrow> FloorPlanFilters \<Rightarrow> FloorPlansState \<Rightarrow> string list \<Rightarrow> FetchResult
     \<Rightarrow> FloorPlansView" where
  "FloorPlans_render config filters st favorites res =
     (if isLoading res then LoadingView
      else if isError res then
        ErrorView (''Error loading floor plans: '' @ or_else (error res) ''Unknown error'')
      else if (case data res of None \<Rightarrow> True | Some xs \<Rightarrow> length xs = 0) then EmptyView
      else FloorPlansMain
        \<lparr> grid =
            (if length (filteredFloorPlans config filters (data res)) = 0 then NoResults
             else Cards (map (\<lambda>fp. (fp, FloorPlans_getProjectName config (projectId fp)))
                             (filteredFloorPlans config filters (data res)))),
          compareButton = canCompare (data res) favorites,
          detailModal =
            \<lparr> detail_floorPlan = selectedFloorPlan st, detail_isOpen = isModalOpen st \<rparr>,
          comparisonModal =
            \<lparr> cmp_isOpen = isCompareModalOpen st,
              cmp_favoritedFloorPlans = favoritedFloorPlans (data res) favorites \<rparr> \<rparr>)"


definition view_compareButton :: "FloorPlansView \<Rightarrow> bool" where
  "view_compareButton v = (case v of FloorPlansMain m \<Rightarrow> compareButton m | _ \<Rightarrow> False)"


definition view_comparisonModal :: "FloorPlansView \<Rightarrow> ComparisonModalProps option" where
  "view_comparisonModal v = (case v of FloorPlansMain m \<Rightarrow> Some (comparisonModal m) | _ \<Rightarrow> None)"

section \<open>The \<open>FilterandNav\<close> component\<close>

definition FilterandNav_slugs :: "string list" where
  "FilterandNav_slugs = [''ansoku'', ''solin'', ''willa'']"

definition FilterandNav_projectNameMap :: "ProjectConfig \<Rightarrow> (string \<rightharpoonup> string)" where
  "FilterandNav_projectNameMap config =
     foldl (\<lambda>m project.
              if truthy (project_projectId project)
              then m(the (project_projectId project) \<mapsto> project_name project)
              else m)
           Map.empty (projects config)"

definition FilterandNav_getProjectName :: "ProjectConfig \<Rightarrow> string option \<Rightarrow> string option" where
  "FilterandNav_getProjectName config pid =
     (if \<not> truthy pid then None
      else case FilterandNav_projectNameMap config (the pid) of
             None \<Rightarrow> None
           | Some n \<Rightarrow> if n \<noteq> [] then Some n else None)"

definition FilterandNav_matches :: "ProjectConfig \<Rightarrow> FloorPlanFilters \<Rightarrow> FloorPlanResponse \<Rightarrow> bool" where
  "FilterandNav_matches config filters fp =
     (if projectName filters \<noteq> [] \<and>
         FilterandNav_getProjectName config (projectId fp) \<noteq> Some (projectName filters)
      then False
      else if bedrooms filters \<noteq> [] \<and> bedRooms fp \<noteq> Some (bedrooms filters) then False
      else if bathrooms filters \<noteq> [] \<and> bathRooms fp \<noteq> Some (bathrooms filters) then False
      else case sizeRange filters of
             None \<Rightarrow> True
           | Some r \<Rightarrow>
               (let size = parseInt (or_else (totalSize fp) (or_else (interiorSize fp) ''0''))
                in if js_lt size (range_min r) \<or> js_gt size (range_max r) then False else True))"

definition filteredCount ::
  "ProjectConfig \<Rightarrow> FloorPlanFilters \<Rightarrow> FloorPlanResponse list option \<Rightarrow> nat" where
  "filteredCount config filters d =
     (case d of None \<Rightarrow> 0 | Some xs \<Rightarrow> length (filter (FilterandNav_matches config filters) xs))"

text \<open>
  The two formatters of the filter drawer. They have no \<open>isNaN\<close> guard, and a missing or
  empty input is shown as zero.
\<close>

definition FilterandNav_formatBedrooms :: "string option \<Rightarrow> string" where
  "FilterandNav_formatBedrooms beds =
     (if \<not> truthy beds then ''0 Beds''
      else
        let num = parseFloat (the beds);
            whole = Math_floor num;
            hasDecimal = js_strict_neq (js_rem num (Fin 1)) (Fin 0);
            plural = (if js_strict_neq whole (Fin 1) then ''s'' else [])
        in if hasDecimal then numberToString whole @ '' Bed'' @ plural @ '' + Den''
           else numberToString whole @ '' Bed'' @ plural)"


section \<open>The \<open>FloorPlanComparisonModal\<close> component\<close>

text \<open>
  The modal's props are the \<open>ComparisonModalProps\<close> above. Its four \<open>useState\<close> cells
  are the fields of \<open>ModalState\<close>; \<open>pickerSide\<close> has the type \<open>0 | 1 | null\<close>.
\<close>

datatype Side = Side0 | Side1

record ModalState =
  leftFloorPlan :: "FloorPlanResponse option"
  rightFloorPlan :: "FloorPlanResponse option"
  pickerSide :: "Side option"
  isExpanded :: bool

text \<open>The two effects: take the first two favourites on opening, reset on closing.\<close>

definition init_effect :: "ComparisonModalProps \<Rightarrow> ModalState \<Rightarrow> ModalState" where
  "init_effect props st =
     (if cmp_isOpen props \<and> 2 \<le> length (cmp_favoritedFloorPlans props)
      then st\<lparr>leftFloorPlan := Some (cmp_favoritedFloorPlans props ! 0),
              rightFloorPlan := Some (cmp_favoritedFloorPlans props ! 1)\<rparr>
      else st)"

definition reset_effect :: "ComparisonModalProps \<Rightarrow> ModalState \<Rightarrow> ModalState" where
  "reset_effect props st =
     (if \<not> cmp_isOpen props then st\<lparr>pickerSide := None, isExpanded := False\<rparr> else st)"

text \<open>
  \<open>candidateFloorPlans\<close>: \<open>excludedIds\<close> holds the truthy ones among
  \<open>leftFloorPlan?.id\<close> and \<open>rightFloorPlan?.id\<close>; a favourite is a candidate when its id
  is truthy and not excluded.
\<close>

definition excludedIds :: "ModalState \<Rightarrow> string option list" where
  "excludedIds st =
     filter truthy [map_option fp_id (leftFloorPlan st), map_option fp_id (rightFloorPlan st)]"

definition candidateFloorPlans :: "ComparisonModalProps \<Rightarrow> ModalState \<Rightarrow> FloorPlanResponse list" where
  "candidateFloorPlans props st =
     (if \<not> cmp_isOpen props then []
      else filter (\<lambda>fp. fp_id fp \<noteq> [] \<and> Some (fp_id fp) \<notin> set (excludedIds st))
                  (cmp_favoritedFloorPlans props))"

definition floorPlansToCompare :: "ModalState \<Rightarrow> FloorPlanResponse list" where
  "floorPlansToCompare st =
     map the (filter (\<lambda>fp. fp \<noteq> None) [leftFloorPlan st, rightFloorPlan st])"

text \<open>The modal's formatters: empty for a missing input, the input itself when it is no number.\<close>

definition formatBedrooms :: "string option \<Rightarrow> string" where
  "formatBedrooms beds =
     (if \<not> truthy beds then []
      else
        let num = parseFloat (the beds) in
        if isNaN num then the beds
        else
          let whole = Math_floor num;
              hasDecimal = js_strict_neq (js_rem num (Fin 1)) (Fin 0);
              plural = (if js_strict_neq whole (Fin 1) then ''s'' else [])
          in if hasDecimal then numberToString whole @ '' Bed'' @ plural @ '' + Den''
             else numberToString whole @ '' Bed'' @ plural)"



text \<open>
  The click handlers of the rendered buttons. A candidate button exists only inside the
  picker, which is rendered only while \<open>pickerSide\<close> is not \<open>null\<close>; its handler calls
  \<open>handleReplaceFloorPlan(pickerSide, fp)\<close>.
\<close>

definition click_compare_others :: "Side \<Rightarrow> ModalState \<Rightarrow> ModalState" where
  "click_compare_others s st = st\<lparr>pickerSide := Some s\<rparr>"

definition click_zoom :: "ModalState \<Rightarrow> ModalState" where
  "click_zoom st = st\<lparr>isExpanded := (\<not> isExpanded st)\<rparr>"

definition click_picker_close :: "ModalState \<Rightarrow> ModalState" where
  "click_picker_close st = st\<lparr>pickerSide := None\<rparr>"


text \<open>
  What the modal returns: \<open>null\<close> (\<open>None\<close>), or the comparison body (one
  \<open>FloorPlanDetails\<close> per element of \<open>floorPlansToCompare\<close>, with its index), the
  placeholder shown when exactly one plan is selected, and the picker with its candidate
  buttons while \<open>pickerSide\<close> is set.
\<close>

record ModalView =
  body :: "(FloorPlanResponse \<times> nat) list"
  placeholder :: bool
  picker :: "FloorPlanResponse list option"

definition FloorPlanComparisonModal_render ::
  "ComparisonModalProps \<Rightarrow> ModalState \<Rightarrow> ModalView option" where
  "FloorPlanComparisonModal_render props st =
     (if \<not> cmp_isOpen props \<or> length (cmp_favoritedFloorPlans props) < 2 then None
      else Some
        \<lparr> body = zip (floorPlansToCompare st) [0 ..< length (floorPlansToCompare st)],
          placeholder = (length (floorPlansToCompare st) = 1),
          picker = (case pickerSide st of
                      None \<Rightarrow> None
                    | Some s \<Rightarrow> Some (candidateFloorPlans props st)) \<rparr>)"

section \<open>Sample data\<close>

text \<open>Concrete plans, filters and props on which the theorems below are instantiated.\<close>

definition mk_plan ::
  "string \<Rightarrow> string option \<Rightarrow> string option \<Rightarrow> string option \<Rightarrow> string option
     \<Rightarrow> FloorPlanResponse" where
  "mk_plan i p beds baths sz =
     \<lparr> fp_id = i, projectId = p, name = None, bedRooms = beds, bathRooms = baths,
       totalSize = sz, interiorSize = None, exteriorSize = None \<rparr>"

definition plan_a :: FloorPlanResponse where
  "plan_a = mk_plan ''a'' (Some ''p1'') (Some ''2'') (Some ''1.5'') (Some ''900'')"

definition plan_b :: FloorPlanResponse where
  "plan_b = mk_plan ''b'' (Some ''p2'') (Some ''3.5'') (Some ''2'') (Some ''1600 sqft'')"

definition plan_c :: FloorPlanResponse where
  "plan_c = mk_plan ''c'' (Some ''p1'') (Some ''1'') (Some ''1'') (Some ''TBD'')"

definition sample_config :: ProjectConfig where
  "sample_config =
     \<lparr> slug = ''lightwell'',
       projects = [\<lparr> project_projectId = Some ''p1'', project_name = ''Ansoku'' \<rparr>,
                   \<lparr> project_projectId = Some ''p2'', project_name = ''Solin'' \<rparr>] \<rparr>"

definition no_filters :: FloorPlanFilters where
  "no_filters = \<lparr> projectName = [], bedrooms = [], bathrooms = [], sizeRange = None \<rparr>"

definition under_1000 :: SizeRange where
  "under_1000 = \<lparr> range_min = Fin 0, range_max = Fin 1000 \<rparr>"

definition closed_page :: FloorPlansState where
  "closed_page = \<lparr> selectedFloorPlan = None, isModalOpen = False, isCompareModalOpen = False \<rparr>"

definition loaded :: "FloorPlanResponse list \<Rightarrow> FetchResult" where
  "loaded xs = \<lparr> data = Some xs, isLoading = False, error = None, isError = False \<rparr>"

definition open_props :: "FloorPlanResponse list \<Rightarrow> ComparisonModalProps" where
  "open_props favs = \<lparr> cmp_isOpen = True, cmp_favoritedFloorPlans = favs \<rparr>"

definition comparing ::
  "FloorPlanResponse option \<Rightarrow> FloorPlanResponse option \<Rightarrow> Side option \<Rightarrow> ModalState" where
  "comparing l r s = \<lparr> leftFloorPlan = l, rightFloorPlan = r, pickerSide = s, isExpanded = False \<rparr>"



section \<open>Properties\<close>

subsection \<open>The comparison modal's selection\<close>

text \<open>
  Claim C1. The comparison modal shows at most two selections: in every state the list
  \<open>floorPlansToCompare\<close>, built from the left and the right slot by dropping the empty
  ones, has at most two elements, and whenever the modal renders, its comparison body has
  at most two \<open>FloorPlanDetails\<close> sections.
\<close>

theorem comparison_shows_at_most_two:
  "length (floorPlansToCompare st) \<le> 2 \<and>
   (\<forall>v. FloorPlanComparisonModal_render props st = Some v \<longrightarrow> length (body v) \<le> 2)"
proof -
  have len: "length (floorPlansToCompare st) \<le> 2"
    by (simp add: floorPlansToCompare_def)
  moreover have "length (body v) \<le> 2" if "FloorPlanComparisonModal_render props st = Some v" for v
    using that len by (auto simp: FloorPlanComparisonModal_render_def split: if_splits)
  ultimately show ?thesis by blast
qed

theorem comparison_shows_at_most_two_witness:
  "FloorPlanComparisonModal_render (open_props [plan_a, plan_b, plan_c])
       (comparing (Some plan_a) (Some plan_b) None)
     = Some \<lparr> body = [(plan_a, 0), (plan_b, 1)], placeholder = False, picker = None \<rparr>
   \<and> length (body \<lparr> body = [(plan_a, 0), (plan_b, 1)], placeholder = False, picker = None \<rparr>) \<le> 2"
proof -
  have h: "FloorPlanComparisonModal_render (open_props [plan_a, plan_b, plan_c])
       (comparing (Some plan_a) (Some plan_b) None)
     = Some \<lparr> body = [(plan_a, 0), (plan_b, 1)], placeholder = False, picker = None \<rparr>"
    by (simp add: FloorPlanComparisonModal_render_def open_props_def comparing_def
          floorPlansToCompare_def upt_rec)
  from comparison_shows_at_most_two [of "comparing (Some plan_a) (Some plan_b) None"
      "open_props [plan_a, plan_b, plan_c]"] h
  show ?thesis by blast
qed

subsection \<open>Project identifiers\<close>

text \<open>
  Claim C7. Without a \<open>projectSlugs\<close> prop, \<open>FloorPlans\<close> requests the slugs
  \<open>ansoku\<close>, \<open>solin\<close>, \<open>willa\<close> in this order, and \<open>FilterandNav\<close> requests the same
  fixed list, so both components query the same project identifiers.
\<close>

theorem both_components_request_same_slugs:
  "FloorPlans_slugs None = [''ansoku'', ''solin'', ''willa''] \<and>
   FilterandNav_slugs = [''ansoku'', ''solin'', ''willa''] \<and>
   FloorPlans_slugs None = FilterandNav_slugs"
  by (simp add: FloorPlans_slugs_def FilterandNav_slugs_def)

subsection \<open>The two copies of the filter\<close>

lemma matches_copies_agree:
  "FilterandNav_matches config filters = FloorPlans_matches config filters"
  by (rule ext)
     (simp add: FilterandNav_matches_def FloorPlans_matches_def FilterandNav_getProjectName_def
        FloorPlans_getProjectName_def FilterandNav_projectNameMap_def FloorPlans_projectNameMap_def)

text \<open>
  Claim C8. The two independent copies of the filter predicate agree: on the same fetched
  list, filter setting and project configuration, \<open>filteredCount\<close> of \<open>FilterandNav\<close> is
  the length of \<open>filteredFloorPlans\<close> of \<open>FloorPlans\<close>.
\<close>

theorem filteredCount_is_length_of_filteredFloorPlans:
  "filteredCount config filters d = length (filteredFloorPlans config filters d)"
  by (simp add: filteredCount_def filteredFloorPlans_def matches_copies_agree split: option.split)

subsection \<open>Filtering\<close>

lemma subseq_filter_mono:
  "(\<And>x. P x \<Longrightarrow> Q x) \<Longrightarrow> subseq (filter P xs) (filter Q xs)"
  by (induction xs) auto

lemma filtered_mono:
  assumes "\<And>fp. FloorPlans_matches config f fp \<Longrightarrow> FloorPlans_matches config g fp"
  shows "subseq (filteredFloorPlans config f d) (filteredFloorPlans config g d)"
  using assms by (cases d) (simp_all add: filteredFloorPlans_def subseq_filter_mono)

text \<open>
  What the filter callback decides, test by test. The size test is the negation of the
  source's \<open>size < min || size > max\<close>; for a size and bounds that are finite numbers it
  is membership in the closed interval.
\<close>

lemma FloorPlans_matches_iff:
  "FloorPlans_matches config filters fp \<longleftrightarrow>
     (projectName filters \<noteq> [] \<longrightarrow>
        FloorPlans_getProjectName config (projectId fp) = Some (projectName filters)) \<and>
     (bedrooms filters \<noteq> [] \<longrightarrow> bedRooms fp = Some (bedrooms filters)) \<and>
     (bathrooms filters \<noteq> [] \<longrightarrow> bathRooms fp = Some (bathrooms filters)) \<and>
     (\<forall>r. sizeRange filters = Some r \<longrightarrow>
        \<not> js_lt (parseInt (or_else (totalSize fp) (or_else (interiorSize fp) ''0''))) (range_min r) \<and>
        \<not> js_gt (parseInt (or_else (totalSize fp) (or_else (interiorSize fp) ''0''))) (range_max r))"
  by (auto simp: FloorPlans_matches_def Let_def split: option.splits)

lemma finite_size_in_range:
  "\<not> js_lt (Fin n) (Fin lo) \<and> \<not> js_gt (Fin n) (Fin hi) \<longleftrightarrow> lo \<le> n \<and> n \<le> hi"
  by (auto simp: js_gt_def)

lemma NaN_size_passes: "\<not> js_lt NaN lo \<and> \<not> js_gt NaN hi"
  by (cases hi) (simp_all add: js_gt_def)

text \<open>
  Claim C2 (filtering is direct field comparison), at an input where the code departs
  from it. By the claim a floor plan passes a size filter if and only if the integer
  parsed from its size lies in \<open>[min, max]\<close>. The plan \<open>plan_c\<close> has the size \<open>TBD\<close>,
  from which \<open>parseInt\<close> reads no integer, and the filter "under 1,000 sqft" keeps it all
  the same: both comparisons with \<open>NaN\<close> are false. The other three tests, and the size
  test on sizes that parse, are as the claim says (\<open>FloorPlans_matches_iff\<close>,
  \<open>finite_size_in_range\<close>).
\<close>

theorem unparsable_size_passes_range_filter:
  "parseInt (or_else (totalSize plan_c) (or_else (interiorSize plan_c) ''0'')) = NaN \<and>
   filteredFloorPlans sample_config (no_filters\<lparr>sizeRange := Some under_1000\<rparr>) (Some [plan_c])
     = [plan_c]"
  by code_simp

text \<open>
  Claim C3. Filter selection narrows the visible list: the filtered list is a subsequence
  of the fetched list, and setting any one of \<open>projectName\<close>, \<open>bedrooms\<close>, \<open>bathrooms\<close>,
  \<open>sizeRange\<close> to a value gives a subsequence of the list obtained with that field empty
  (or \<open>null\<close>), the other fields being the same.
\<close>

theorem filters_narrow:
  "subseq (filteredFloorPlans config filters d) (case d of None \<Rightarrow> [] | Some xs \<Rightarrow> xs) \<and>
   subseq (filteredFloorPlans config (filters\<lparr>projectName := v\<rparr>) d)
          (filteredFloorPlans config (filters\<lparr>projectName := []\<rparr>) d) \<and>
   subseq (filteredFloorPlans config (filters\<lparr>bedrooms := v\<rparr>) d)
          (filteredFloorPlans config (filters\<lparr>bedrooms := []\<rparr>) d) \<and>
   subseq (filteredFloorPlans config (filters\<lparr>bathrooms := v\<rparr>) d)
          (filteredFloorPlans config (filters\<lparr>bathrooms := []\<rparr>) d) \<and>
   subseq (filteredFloorPlans config (filters\<lparr>sizeRange := Some r\<rparr>) d)
          (filteredFloorPlans config (filters\<lparr>sizeRange := None\<rparr>) d)"
proof (intro conjI)
  show "subseq (filteredFloorPlans config filters d) (case d of None \<Rightarrow> [] | Some xs \<Rightarrow> xs)"
    by (cases d) (simp_all add: filteredFloorPlans_def)
  show "subseq (filteredFloorPlans config (filters\<lparr>projectName := v\<rparr>) d)
          (filteredFloorPlans config (filters\<lparr>projectName := []\<rparr>) d)"
    by (rule filtered_mono) (auto simp: FloorPlans_matches_iff)
  show "subseq (filteredFloorPlans config (filters\<lparr>bedrooms := v\<rparr>) d)
          (filteredFloorPlans config (filters\<lparr>bedrooms := []\<rparr>) d)"
    by (rule filtered_mono) (auto simp: FloorPlans_matches_iff)
  show "subseq (filteredFloorPlans config (filters\<lparr>bathrooms := v\<rparr>) d)
          (filteredFloorPlans config (filters\<lparr>bathrooms := []\<rparr>) d)"
    by (rule filtered_mono) (auto simp: FloorPlans_matches_iff)
  show "subseq (filteredFloorPlans config (filters\<lparr>sizeRange := Some r\<rparr>) d)
          (filteredFloorPlans config (filters\<lparr>sizeRange := None\<rparr>) d)"
    by (rule filtered_mono) (auto simp: FloorPlans_matches_iff)
qed

subsection \<open>Formatting\<close>









text \<open>
  Outside the finite numbers: a string that is no number is returned unchanged by the
  modal and printed as \<open>NaN\<close> by the filter drawer, which has no \<open>isNaN\<close> guard; an
  infinity takes the numeric path, where \<open>Infinity % 1\<close> is \<open>NaN\<close> and so differs
  from 0.
\<close>

lemma formatBedrooms_not_finite:
  "formatBedrooms (Some ''Studio'') = ''Studio'' \<and>
   FilterandNav_formatBedrooms (Some ''Studio'') = ''NaN Beds + Den'' \<and>
   formatBedrooms (Some ''Infinity'') = ''Infinity Beds + Den''"
  by code_simp

subsection \<open>The page's render branches\<close>







subsection \<open>Favourites and the comparison modal\<close>

lemma array_includes_iff: "array_includes ys x \<longleftrightarrow> x \<in> set ys"
  by (induction ys) auto


text \<open>
  Claim C6. The local-favourites store drives the comparison input: \<open>favoritedFloorPlans\<close>
  is the fetched list restricted to the plans whose id is in \<open>favorites\<close>, in the fetched
  order; whenever the page renders its main view, this list is the \<open>favoritedFloorPlans\<close>
  prop of the comparison modal, and the modal's props do not depend on the filters.
\<close>

theorem favorites_drive_comparison:
  "favoritedFloorPlans d favorites =
     filter (\<lambda>fp. fp_id fp \<in> set favorites) (case d of None \<Rightarrow> [] | Some xs \<Rightarrow> xs) \<and>
   (\<forall>m. FloorPlans_render config filters st favorites res = FloorPlansMain m \<longrightarrow>
      cmp_favoritedFloorPlans (comparisonModal m) = favoritedFloorPlans (data res) favorites) \<and>
   view_comparisonModal (FloorPlans_render config filters st favorites res) =
     view_comparisonModal (FloorPlans_render config filters' st favorites res)"
proof (intro conjI allI impI)
  show "favoritedFloorPlans d favorites =
     filter (\<lambda>fp. fp_id fp \<in> set favorites) (case d of None \<Rightarrow> [] | Some xs \<Rightarrow> xs)"
    by (cases d) (simp_all add: favoritedFloorPlans_def array_includes_iff)
next
  fix m
  assume "FloorPlans_render config filters st favorites res = FloorPlansMain m"
  then show "cmp_favoritedFloorPlans (comparisonModal m) = favoritedFloorPlans (data res) favorites"
    by (auto simp: FloorPlans_render_def split: if_splits)
next
  show "view_comparisonModal (FloorPlans_render config filters st favorites res) =
     view_comparisonModal (FloorPlans_render config filters' st favorites res)"
    by (simp add: FloorPlans_render_def view_comparisonModal_def)
qed


theorem favorites_drive_comparison_witness:
  "FloorPlans_render sample_config (no_filters\<lparr>bedrooms := ''3.5''\<rparr>) closed_page [''c'', ''a'']
       (loaded [plan_a, plan_b, plan_c])
     = FloorPlansMain
         \<lparr> grid = Cards [(plan_b, Some ''Solin'')],
           compareButton = True,
           detailModal = \<lparr> detail_floorPlan = None, detail_isOpen = False \<rparr>,
           comparisonModal = \<lparr> cmp_isOpen = False, cmp_favoritedFloorPlans = [plan_a, plan_c] \<rparr> \<rparr> \<and>
   favoritedFloorPlans (data (loaded [plan_a, plan_b, plan_c])) [''c'', ''a''] = [plan_a, plan_c]"
proof -
  have h: "FloorPlans_render sample_config (no_filters\<lparr>bedrooms := ''3.5''\<rparr>) closed_page [''c'', ''a'']
       (loaded [plan_a, plan_b, plan_c])
     = FloorPlansMain
         \<lparr> grid = Cards [(plan_b, Some ''Solin'')],
           compareButton = True,
           detailModal = \<lparr> detail_floorPlan = None, detail_isOpen = False \<rparr>,
           comparisonModal = \<lparr> cmp_isOpen = False, cmp_favoritedFloorPlans = [plan_a, plan_c] \<rparr> \<rparr>"
    by code_simp
  from favorites_drive_comparison [of "data (loaded [plan_a, plan_b, plan_c])" "[''c'', ''a'']"
      sample_config "no_filters\<lparr>bedrooms := ''3.5''\<rparr>" closed_page "loaded [plan_a, plan_b, plan_c]"] h
  show ?thesis by simp
qed






text \<open>
  Claim C10. Comparison is only reachable with at least two favourites: the modal returns
  \<open>null\<close> whenever it is closed or has fewer than two favourites, and the page shows the
  Compare button only when \<open>favoritedFloorPlans\<close> has at least two elements.
\<close>

theorem comparison_needs_two_favorites:
  "(\<not> cmp_isOpen props \<or> length (cmp_favoritedFloorPlans props) < 2 \<longrightarrow>
      FloorPlanComparisonModal_render props st = None) \<and>
   (view_compareButton (FloorPlans_render config filters pst favorites res) \<longrightarrow>
      2 \<le> length (favoritedFloorPlans (data res) favorites))"
  by (auto simp: FloorPlanComparisonModal_render_def FloorPlans_render_def view_compareButton_def
        canCompare_def)


theorem comparison_needs_two_favorites_witness:
  "length (cmp_favoritedFloorPlans (open_props [plan_a])) < 2 \<and>
   FloorPlanComparisonModal_render (open_props [plan_a]) (comparing None None None) = None \<and>
   view_compareButton (FloorPlans_render sample_config no_filters closed_page [''c'', ''a'']
       (loaded [plan_a, plan_b, plan_c])) \<and>
   2 \<le> length (favoritedFloorPlans (data (loaded [plan_a, plan_b, plan_c])) [''c'', ''a''])"
proof -
  have h1: "length (cmp_favoritedFloorPlans (open_props [plan_a])) < 2"
    by (simp add: open_props_def)
  have h2: "view_compareButton (FloorPlans_render sample_config no_filters closed_page [''c'', ''a'']
       (loaded [plan_a, plan_b, plan_c]))"
    by code_simp
  from comparison_needs_two_favorites [of "open_props [plan_a]" "comparing None None None"
         sample_config no_filters closed_page "[''c'', ''a'']" "loaded [plan_a, plan_b, plan_c]"]
       h1 h2
  show ?thesis by blast
qed

end
